theory Spec2Isabelle
  imports Complex_Main
begin

section \<open>JavaScript values\<close>

text \<open>
  A property of a JavaScript object read by the components is either missing
  (\<open>undefined\<close>), \<open>null\<close>, or carries a value.  The three cases are kept apart
  because the source tells them apart: \<open>x !== undefined\<close> lets \<open>null\<close> through,
  whereas \<open>x || y\<close>, \<open>x ? a : b\<close> and \<open>x?.f\<close> treat both alike.
\<close>

datatype 'a js = Undefined | Null | Val 'a

text \<open>Optional chaining \<open>o?.f\<close>: \<open>undefined\<close> when \<open>o\<close> is \<open>undefined\<close> or \<open>null\<close>.\<close>

fun chain :: "'r js \<Rightarrow> ('r \<Rightarrow> 'a js) \<Rightarrow> 'a js" where
  "chain Undefined f = Undefined"
| "chain Null f = Undefined"
| "chain (Val r) f = f r"

text \<open>Truthiness of a string (non-empty) and of a number (non-zero).\<close>

fun truthy_str :: "string js \<Rightarrow> bool" where
  "truthy_str (Val s) = (s \<noteq> [])"
| "truthy_str _ = False"

fun truthy_num :: "real js \<Rightarrow> bool" where
  "truthy_num (Val x) = (x \<noteq> 0)"
| "truthy_num _ = False"

text \<open>\<open>a || b\<close>: the left operand when it is truthy, the right operand otherwise.\<close>

definition or_str :: "string js \<Rightarrow> string js \<Rightarrow> string js" where
  "or_str a b = (if truthy_str a then a else b)"

definition or_num :: "real js \<Rightarrow> real js \<Rightarrow> real js" where
  "or_num a b = (if truthy_num a then a else b)"

text \<open>
  \<open>Math.round\<close> rounds to the nearest integer, halves towards \<open>+\<infinity>\<close>;
  \<open>Math.round(null)\<close> is \<open>0\<close> and \<open>Math.round(undefined)\<close> is \<open>NaN\<close>, which the
  callers below never produce because they test \<open>!== undefined\<close> first.
\<close>

definition Math_round :: "real \<Rightarrow> int" where
  "Math_round x = \<lfloor>x + 1 / 2\<rfloor>"

text \<open>
  \<open>Array.prototype.findIndex\<close>: the index of the first element satisfying the
  predicate, \<open>-1\<close> when there is none.
\<close>

fun findIndex :: "('a \<Rightarrow> bool) \<Rightarrow> 'a list \<Rightarrow> int" where
  "findIndex P [] = - 1"
| "findIndex P (x # xs) =
     (if P x then 0
      else (let r = findIndex P xs in if r = - 1 then - 1 else r + 1))"

section \<open>Jobs and progress events\<close>

datatype status = Queued | Processing | Completed | Failed | Cancelled

text \<open>
  The progress object, as the card reads it from a poll snapshot
  (\<open>props.job.progress\<close>) and from the push channel (\<open>progress.value\<close>).  The card
  reads the stage under the property name \<open>step\<close>.
\<close>

record progress_info =
  step :: "string js"
  percentage :: "real js"
  message :: "string js"
  elapsed_seconds :: "real js"

text \<open>
  A job as returned by \<open>listJobs\<close>; the fields are those the components read.
  \<open>job_elapsed_seconds\<close> is the job's own \<open>elapsed_seconds\<close> property.
\<close>

record job =
  job_id :: string
  status :: status
  queue_position :: "nat js"
  progress :: "progress_info js"
  job_elapsed_seconds :: "real js"
  estimated_duration_seconds :: "real js"
  error_message :: "string js"
  custom_name :: "string js"
  title :: "string js"

section \<open>ProgressCard.vue\<close>

text \<open>
  The card has one prop, \<open>job\<close>, and one piece of state of its own: the ref
  \<open>progress\<close> returned by \<open>useWebSocket(props.job.job_id)\<close>.  The composable is not
  among the sources, so every function of the card takes the current value of the ref
  as its first argument \<open>p\<close> and the prop as its second argument \<open>j\<close>.
\<close>

record step_item =
  key :: string
  label :: string

definition steps :: "step_item list" where
  "steps =
    [\<lparr>key = ''downloading'', label = ''Downloading audio''\<rparr>,
     \<lparr>key = ''separating'', label = ''Separating vocals''\<rparr>,
     \<lparr>key = ''transcribing'', label = ''Transcribing lyrics''\<rparr>,
     \<lparr>key = ''pitching'', label = ''Detecting pitch''\<rparr>,
     \<lparr>key = ''generating'', label = ''Generating file''\<rparr>]"

definition displayName :: "job \<Rightarrow> string js" where
  "displayName j = or_str (custom_name j) (or_str (title j) (Val ''Processing...''))"

text \<open>The string carried by a value that passed a truthiness test.\<close>

fun str_of :: "string js \<Rightarrow> string" where
  "str_of (Val s) = s"
| "str_of _ = []"

definition currentStepMessage :: "progress_info js \<Rightarrow> job \<Rightarrow> string" where
  "currentStepMessage p j =
     (if truthy_str (chain p message) then str_of (chain p message)
      else if truthy_str (chain (progress j) message)
        then str_of (chain (progress j) message)
      else ''Initializing...'')"

text \<open>\<open>Math.round\<close> of a property that passed the test \<open>!== undefined\<close>.\<close>

fun round_defined :: "real js \<Rightarrow> int" where
  "round_defined (Val x) = Math_round x"
| "round_defined _ = 0"

definition progressPercentage :: "progress_info js \<Rightarrow> job \<Rightarrow> int" where
  "progressPercentage p j =
     (if chain p percentage \<noteq> Undefined then round_defined (chain p percentage)
      else if chain (progress j) percentage \<noteq> Undefined
        then round_defined (chain (progress j) percentage)
      else 0)"

datatype step_status = Step_completed | Step_active | Step_pending

text \<open>The local \<open>currentStep\<close> of \<open>getStepStatus\<close>.\<close>

definition currentStep :: "progress_info js \<Rightarrow> job \<Rightarrow> string js" where
  "currentStep p j = or_str (chain p step) (chain (progress j) step)"

definition getStepStatus :: "progress_info js \<Rightarrow> job \<Rightarrow> string \<Rightarrow> step_status" where
  "getStepStatus p j stepKey =
     (let stepIndex = findIndex (\<lambda>s. key s = stepKey) steps;
          currentIndex = findIndex (\<lambda>s. Val (key s) = currentStep p j) steps
      in if currentIndex = - 1 then Step_pending
         else if stepIndex < currentIndex then Step_completed
         else if stepIndex = currentIndex then Step_active
         else Step_pending)"

text \<open>
  The local \<open>seconds\<close> of \<open>elapsedTime\<close> (and \<open>elapsed\<close> of \<open>estimatedRemaining\<close>).
\<close>

definition elapsedSeconds :: "progress_info js \<Rightarrow> job \<Rightarrow> real js" where
  "elapsedSeconds p j =
     or_num (or_num (chain p elapsed_seconds) (chain (progress j) elapsed_seconds))
       (job_elapsed_seconds j)"

text \<open>
  \<open>formatDuration\<close> comes from \<open>@/utils/time\<close>, which is not among the sources; it
  is a parameter.  The result is \<open>None\<close> where the source returns \<open>null\<close>.
\<close>

definition elapsedTime :: "(real \<Rightarrow> string) \<Rightarrow> progress_info js \<Rightarrow> job \<Rightarrow> string option" where
  "elapsedTime formatDuration p j =
     (case elapsedSeconds p j of
        Val x \<Rightarrow> (if x \<noteq> 0 then Some (formatDuration x) else None)
      | _ \<Rightarrow> None)"

text \<open>
  \<open>queueMessage\<close>: the two template strings are kept as constructors
  (\<open>Currently processing\<close>, \<open>Position pos in queue\<close>); \<open>None\<close> is \<open>null\<close>.
\<close>

datatype queue_msg = Currently_processing | Position_in_queue nat

definition queueMessage :: "job \<Rightarrow> queue_msg option" where
  "queueMessage j =
     (case queue_position j of
        Null \<Rightarrow> None
      | Undefined \<Rightarrow> None
      | Val pos \<Rightarrow> (if pos = 0 then Some Currently_processing else Some (Position_in_queue pos)))"

subsection \<open>The template\<close>

text \<open>
  What the template renders depends on \<open>job.status\<close> through its \<open>v-if\<close>
  conditions.  The header shows \<open>queueMessage\<close> whenever it is not \<open>null\<close> and the
  metadata grid shows \<open>elapsedTime\<close> whenever it is not \<open>null\<close>, whatever the status;
  the progress bar block and the step indicators are guarded by the status.
\<close>

record progress_bar =
  bar_message :: string
  bar_percentage :: int
  bar_elapsed :: "string option"

definition progressBar ::
  "(real \<Rightarrow> string) \<Rightarrow> progress_info js \<Rightarrow> job \<Rightarrow> progress_bar option" where
  "progressBar formatDuration p j =
     (if status j = Processing \<or> status j = Queued
      then Some \<lparr>bar_message = currentStepMessage p j,
                 bar_percentage = progressPercentage p j,
                 bar_elapsed = elapsedTime formatDuration p j\<rparr>
      else None)"

definition stepIndicators :: "progress_info js \<Rightarrow> job \<Rightarrow> step_status list option" where
  "stepIndicators p j =
     (if status j = Processing then Some (map (\<lambda>s. getStepStatus p j (key s)) steps)
      else None)"

text \<open>
  The action buttons.  A button that is not rendered cannot be clicked; a rendered
  one emits its event with \<open>job.job_id\<close>.
\<close>

datatype button = Cancel_button | Retry_button | Delete_button

datatype emitted = Emit_cancel string | Emit_retry string | Emit_delete string

fun click :: "job \<Rightarrow> button \<Rightarrow> emitted option" where
  "click j Cancel_button =
     (if status j = Processing \<or> status j = Queued then Some (Emit_cancel (job_id j))
      else None)"
| "click j Retry_button =
     (if status j = Failed \<or> status j = Cancelled then Some (Emit_retry (job_id j))
      else None)"
| "click j Delete_button = Some (Emit_delete (job_id j))"

subsection \<open>A mounted card over time\<close>

text \<open>
  A mounted card keeps its instance while its \<open>job_id\<close> stays in the rendered list
  (\<open>:key="job.job_id"\<close>): a poll result replaces the prop, a push event replaces the
  value of the ref.  \<open>Poll_start\<close> marks the beginning of a poll cycle (the call of
  \<open>listJobs\<close>); it changes nothing in the card.
\<close>

record card =
  progress_value :: "progress_info js"
  props_job :: job

datatype card_input = Push progress_info | Poll_start | Poll_result job

text \<open>
  Modelled from the spec: \<open>composables/useWebSocket\<close> is not among the sources.  By
  the spec's push channel contract it delivers the partial progress events of one job
  as they occur, so a push event makes its payload the value of the ref \<open>progress\<close>.
  Whether the composable keeps fields of the earlier value that a later event lacks is
  not decided by the sources; no statement below about a missing field rests on the
  \<open>Push\<close> case.  The \<open>Poll_result\<close> case is the source's: \<open>jobs.value = response.jobs\<close>
  replaces the prop of the card as a whole.
\<close>

fun card_step :: "card \<Rightarrow> card_input \<Rightarrow> card" where
  "card_step c (Push e) = c\<lparr>progress_value := Val e\<rparr>"
| "card_step c Poll_start = c"
| "card_step c (Poll_result j) = c\<lparr>props_job := j\<rparr>"

definition card_run :: "card \<Rightarrow> card_input list \<Rightarrow> card" where
  "card_run c t = foldl card_step c t"

text \<open>The progress values a card presents: percentage, message, stage, elapsed seconds.\<close>

definition card_percentage :: "card \<Rightarrow> int" where
  "card_percentage c = progressPercentage (progress_value c) (props_job c)"

definition card_message :: "card \<Rightarrow> string" where
  "card_message c = currentStepMessage (progress_value c) (props_job c)"

definition card_stage :: "card \<Rightarrow> string js" where
  "card_stage c = currentStep (progress_value c) (props_job c)"

definition card_elapsed :: "card \<Rightarrow> real js" where
  "card_elapsed c = elapsedSeconds (progress_value c) (props_job c)"

subsection \<open>Vocabulary for statements about input sequences\<close>

text \<open>The most recently received push event of a sequence, if any.\<close>

fun last_push :: "card_input list \<Rightarrow> progress_info option" where
  "last_push [] = None"
| "last_push (x # xs) =
     (case last_push xs of
        Some ev \<Rightarrow> Some ev
      | None \<Rightarrow> (case x of Push ev \<Rightarrow> Some ev | _ \<Rightarrow> None))"

text \<open>The most recent poll snapshot of a sequence; the given job when there is none.\<close>

fun latest_job :: "job \<Rightarrow> card_input list \<Rightarrow> job" where
  "latest_job j [] = j"
| "latest_job j (Poll_result j' # xs) = latest_job j' xs"
| "latest_job j (Push ev # xs) = latest_job j xs"
| "latest_job j (Poll_start # xs) = latest_job j xs"

fun is_push :: "card_input \<Rightarrow> bool" where
  "is_push (Push ev) = True"
| "is_push _ = False"

text \<open>
  The precedence rule in the spec's words: the push event that counts is the most
  recent one received after the last poll cycle began; \<open>spec_fresh_push None t\<close> is
  that event, \<open>None\<close> when no push event arrived since.  The percentage to present is
  then that event's, and otherwise the poll snapshot's.
\<close>

fun spec_fresh_push :: "progress_info option \<Rightarrow> card_input list \<Rightarrow> progress_info option" where
  "spec_fresh_push acc [] = acc"
| "spec_fresh_push acc (Push ev # xs) = spec_fresh_push (Some ev) xs"
| "spec_fresh_push acc (Poll_start # xs) = spec_fresh_push None xs"
| "spec_fresh_push acc (Poll_result j # xs) = spec_fresh_push acc xs"

definition spec_percentage :: "card \<Rightarrow> card_input list \<Rightarrow> real js" where
  "spec_percentage c t =
     (case spec_fresh_push None t of
        Some ev \<Rightarrow> percentage ev
      | None \<Rightarrow> chain (progress (latest_job (props_job c) t)) percentage)"

section \<open>JobQueue.vue\<close>

text \<open>
  The rejection of a remote call, as the handlers read it:
  \<open>error.response?.data?.detail\<close> and \<open>error.message\<close>.
\<close>

record remote_error =
  detail :: "string js"
  err_message :: "string js"

record jobs_response =
  response_jobs :: "job list"

text \<open>
  Everything outside the component that a handler consults: the remote system behind
  \<open>@/services/api\<close> (a call resolves, \<open>Inr\<close>, or rejects, \<open>Inl\<close>) and the user
  answering \<open>confirm\<close>.
\<close>

record env =
  api_listJobs :: "nat \<Rightarrow> nat \<Rightarrow> remote_error + jobs_response"
  api_cancelJob :: "string \<Rightarrow> remote_error + unit"
  api_retryJob :: "string \<Rightarrow> remote_error + unit"
  api_deleteJob :: "string \<Rightarrow> remote_error + unit"
  confirm :: "string \<Rightarrow> bool"

text \<open>The refs of the component.\<close>

record queue_state =
  jobs :: "job list"
  isLoading :: bool
  selectedFilter :: string

text \<open>What a handler does to the outside, in order.\<close>

datatype effect =
    Call_listJobs nat nat
  | Call_cancelJob string
  | Call_retryJob string
  | Call_deleteJob string
  | Confirm string
  | Console_error string remote_error
  | Alert string

text \<open>
  A handler is an \<open>async\<close> function.  Its run is given by how its promise settles
  (\<open>Inl\<close>: an exception left the function), the refs afterwards, and its effects.
\<close>

type_synonym run = "(remote_error + unit) \<times> queue_state \<times> effect list"

text \<open>The three components of a run.\<close>

definition settled :: "run \<Rightarrow> remote_error + unit" where
  "settled r = fst r"

definition state_after :: "run \<Rightarrow> queue_state" where
  "state_after r = fst (snd r)"

definition effects :: "run \<Rightarrow> effect list" where
  "effects r = snd (snd r)"

text \<open>
  \<open>refreshJobs\<close> calls \<open>listJobs(limit = 50, offset = 0)\<close> of \<open>@/services/api\<close>
  with no argument.  The inner case distinction is its \<open>try\<close> and \<open>catch\<close>, the last
  update of \<open>isLoading\<close> its \<open>finally\<close>.  In the handlers below, the branch for a
  rejected \<open>refreshJobs\<close> is the \<open>catch\<close> around \<open>await refreshJobs()\<close>.
\<close>

definition refreshJobs :: "env \<Rightarrow> queue_state \<Rightarrow> run" where
  "refreshJobs e s =
     (let s1 = s\<lparr>isLoading := True\<rparr>;
          (s2, fx) =
            (case api_listJobs e 50 0 of
               Inr response \<Rightarrow> (s1\<lparr>jobs := response_jobs response\<rparr>, [])
             | Inl error \<Rightarrow> (s1, [Console_error ''Failed to load jobs:'' error]))
      in (Inr (), s2\<lparr>isLoading := False\<rparr>, Call_listJobs 50 0 # fx))"

definition handleCancel :: "env \<Rightarrow> queue_state \<Rightarrow> string \<Rightarrow> run" where
  "handleCancel e s jobId =
     (case api_cancelJob e jobId of
        Inl error \<Rightarrow>
          (Inr (), s,
           [Call_cancelJob jobId, Console_error ''Failed to cancel job:'' error,
            Alert ''Failed to cancel job''])
      | Inr _ \<Rightarrow>
          (case refreshJobs e s of
             (Inr _, s', fx) \<Rightarrow> (Inr (), s', Call_cancelJob jobId # fx)
           | (Inl error, s', fx) \<Rightarrow>
               (Inr (), s',
                Call_cancelJob jobId # fx @
                [Console_error ''Failed to cancel job:'' error,
                 Alert ''Failed to cancel job''])))"

text \<open>String concatenation \<open>'...' + x\<close> of a value that may be missing.\<close>

fun js_to_string :: "string js \<Rightarrow> string" where
  "js_to_string (Val s) = s"
| "js_to_string Null = ''null''"
| "js_to_string Undefined = ''undefined''"

definition retry_alert :: "remote_error \<Rightarrow> string" where
  "retry_alert error =
     ''Failed to retry job: '' @ js_to_string (or_str (detail error) (err_message error))"

definition handleRetry :: "env \<Rightarrow> queue_state \<Rightarrow> string \<Rightarrow> run" where
  "handleRetry e s jobId =
     (case api_retryJob e jobId of
        Inl error \<Rightarrow>
          (Inr (), s,
           [Call_retryJob jobId, Console_error ''Failed to retry job:'' error,
            Alert (retry_alert error)])
      | Inr _ \<Rightarrow>
          (case refreshJobs e s of
             (Inr _, s', fx) \<Rightarrow>
               (Inr (), s'\<lparr>selectedFilter := ''processing''\<rparr>, Call_retryJob jobId # fx)
           | (Inl error, s', fx) \<Rightarrow>
               (Inr (), s',
                Call_retryJob jobId # fx @
                [Console_error ''Failed to retry job:'' error, Alert (retry_alert error)])))"

definition handleDelete :: "env \<Rightarrow> queue_state \<Rightarrow> string \<Rightarrow> run" where
  "handleDelete e s jobId =
     (if \<not> confirm e ''Are you sure you want to delete this job?''
      then (Inr (), s, [Confirm ''Are you sure you want to delete this job?''])
      else
        (case api_deleteJob e jobId of
           Inl error \<Rightarrow>
             (Inr (), s,
              [Confirm ''Are you sure you want to delete this job?'', Call_deleteJob jobId,
               Console_error ''Failed to delete job:'' error, Alert ''Failed to delete job''])
         | Inr _ \<Rightarrow>
             (case refreshJobs e s of
                (Inr _, s', fx) \<Rightarrow>
                  (Inr (), s',
                   Confirm ''Are you sure you want to delete this job?'' #
                   Call_deleteJob jobId # fx)
              | (Inl error, s', fx) \<Rightarrow>
                  (Inr (), s',
                   Confirm ''Are you sure you want to delete this job?'' #
                   Call_deleteJob jobId # fx @
                   [Console_error ''Failed to delete job:'' error,
                    Alert ''Failed to delete job'']))))"

text \<open>
  The listeners on each card: \<open>@cancel="handleCancel"\<close>, \<open>@delete="handleDelete"\<close>,
  \<open>@retry="handleRetry"\<close>.  The handlers are reachable in no other way
  (\<open>defineExpose\<close> exposes \<open>refreshJobs\<close> only).
\<close>

fun on_emit :: "env \<Rightarrow> queue_state \<Rightarrow> emitted \<Rightarrow> run" where
  "on_emit e s (Emit_cancel jobId) = handleCancel e s jobId"
| "on_emit e s (Emit_retry jobId) = handleRetry e s jobId"
| "on_emit e s (Emit_delete jobId) = handleDelete e s jobId"

text \<open>
  The cards are rendered for \<open>filteredJobs\<close>; \<open>selectedFilter\<close> is compared with
  the status string of each job.
\<close>

fun status_name :: "status \<Rightarrow> string" where
  "status_name Queued = ''queued''"
| "status_name Processing = ''processing''"
| "status_name Completed = ''completed''"
| "status_name Failed = ''failed''"
| "status_name Cancelled = ''cancelled''"

definition filteredJobs :: "queue_state \<Rightarrow> job list" where
  "filteredJobs s =
     (if selectedFilter s = ''all'' then jobs s
      else if selectedFilter s = ''processing''
        then filter (\<lambda>job. status job = Queued \<or> status job = Processing) (jobs s)
      else filter (\<lambda>job. status_name (status job) = selectedFilter s) (jobs s))"

text \<open>
  A user pressing a button on the rendered card of job \<open>j\<close>.  \<open>press\<close> describes
  the press on a card that exists, that is, for \<open>j\<close> among \<open>filteredJobs s\<close>; a job
  without a card offers nothing to press.
\<close>

definition press :: "env \<Rightarrow> queue_state \<Rightarrow> job \<Rightarrow> button \<Rightarrow> run" where
  "press e s j b =
     (case click j b of
        None \<Rightarrow> (Inr (), s, [])
      | Some ev \<Rightarrow> on_emit e s ev)"

text \<open>The remote calls among the effects of a run.\<close>

fun is_command :: "effect \<Rightarrow> bool" where
  "is_command (Call_cancelJob _) = True"
| "is_command (Call_retryJob _) = True"
| "is_command (Call_deleteJob _) = True"
| "is_command _ = False"

fun is_remote_call :: "effect \<Rightarrow> bool" where
  "is_remote_call (Call_listJobs _ _) = True"
| "is_remote_call x = is_command x"

fun is_alert :: "effect \<Rightarrow> bool" where
  "is_alert (Alert _) = True"
| "is_alert _ = False"

section \<open>utils/notifications.js\<close>

text \<open>
  The browser, as the module reads it on a call: whether \<open>'Notification' in window\<close>
  and the value of \<open>Notification.permission\<close>.
\<close>

datatype permission = Perm_default | Perm_granted | Perm_denied

record browser =
  has_Notification :: bool
  Notification_permission :: permission

datatype js_exception = ReferenceError

text \<open>
  An options object.  \<open>None\<close> is a property the object does not have; \<open>Some v\<close> is
  an own property with value \<open>v\<close>, which may itself be \<open>undefined\<close>.
\<close>

record notification_options =
  icon :: "string js option"
  badge :: "string js option"
  body :: "string js option"
  tag :: "string js option"
  requireInteraction :: "bool js option"

record notification =
  n_title :: string
  n_options :: notification_options

text \<open>\<open>let permissionGranted = false\<close>: the module-level flag at load time.\<close>

definition permissionGranted_init :: bool where
  "permissionGranted_init = False"

text \<open>
  \<open>requestNotificationPermission\<close>, given the browser, the answer with which
  \<open>Notification.requestPermission()\<close> resolves if it is asked, and the flag.  It
  returns the value of the call and the flag afterwards.  The flag is written in the
  same synchronous step in which the function returns, so the call is atomic for every
  other reader of the flag.
\<close>

definition requestNotificationPermission :: "browser \<Rightarrow> permission \<Rightarrow> bool \<Rightarrow> bool \<times> bool" where
  "requestNotificationPermission b answer permissionGranted =
     (if \<not> has_Notification b then (False, permissionGranted)
      else if Notification_permission b = Perm_granted then (True, True)
      else if Notification_permission b \<noteq> Perm_denied
        then (answer = Perm_granted, answer = Perm_granted)
      else (False, permissionGranted))"

text \<open>
  The object literal \<open>{ icon: '/icon.png', badge: '/icon.png', ...options }\<close>:
  every own property of \<open>options\<close> overrides the default, also one whose value is
  \<open>undefined\<close>.
\<close>

definition with_defaults :: "notification_options \<Rightarrow> notification_options" where
  "with_defaults options =
     options\<lparr>icon := (case icon options of None \<Rightarrow> Some (Val ''/icon.png'') | Some v \<Rightarrow> Some v),
             badge := (case badge options of None \<Rightarrow> Some (Val ''/icon.png'') | Some v \<Rightarrow> Some v)\<rparr>"

text \<open>
  \<open>showNotification\<close>: \<open>Inr None\<close> is the return value \<open>null\<close>, \<open>Inr (Some n)\<close> a
  constructed \<open>Notification\<close>.  The test \<open>!permissionGranted || ...\<close> reads
  \<open>Notification\<close> only when the flag is set; where the global does not exist that read
  throws.
\<close>

definition showNotification ::
  "bool \<Rightarrow> browser \<Rightarrow> string \<Rightarrow> notification_options \<Rightarrow> js_exception + notification option" where
  "showNotification permissionGranted b title' options =
     (if \<not> permissionGranted then Inr None
      else if \<not> has_Notification b then Inl ReferenceError
      else if Notification_permission b \<noteq> Perm_granted then Inr None
      else Inr (Some \<lparr>n_title = title', n_options = with_defaults options\<rparr>))"

text \<open>The two titles start with an emoji, given here by its UTF-8 bytes.\<close>

definition title_completed :: string where
  "title_completed = [CHR 0xE2, CHR 0x9C, CHR 0x85] @ '' Job Completed!''"

definition title_failed :: string where
  "title_failed = [CHR 0xE2, CHR 0x9D, CHR 0x8C] @ '' Job Failed''"

definition notifyJobComplete ::
  "bool \<Rightarrow> browser \<Rightarrow> string \<Rightarrow> bool \<Rightarrow> js_exception + notification option" where
  "notifyJobComplete permissionGranted b jobTitle isSuccess =
     (let title' = (if isSuccess then title_completed else title_failed);
          body' = (if isSuccess then jobTitle @ '' has been processed successfully''
                   else jobTitle @ '' processing failed'')
      in showNotification permissionGranted b title'
           \<lparr>icon = None, badge = None, body = Some (Val body'),
            tag = Some (Val ''job-complete''), requireInteraction = Some (Val False)\<rparr>)"

subsection \<open>Call sequences\<close>

text \<open>
  A call of one of the three exported functions, with the browser as it is at the call.
\<close>

datatype call =
    Call_request browser permission
  | Call_show browser string notification_options
  | Call_notify browser string bool

datatype ret = Ret_bool bool | Ret_notification "js_exception + notification option"

fun module_step :: "bool \<Rightarrow> call \<Rightarrow> ret \<times> bool" where
  "module_step permissionGranted (Call_request b answer) =
     (let (r, g) = requestNotificationPermission b answer permissionGranted
      in (Ret_bool r, g))"
| "module_step permissionGranted (Call_show b title' options) =
     (Ret_notification (showNotification permissionGranted b title' options),
      permissionGranted)"
| "module_step permissionGranted (Call_notify b jobTitle isSuccess) =
     (Ret_notification (notifyJobComplete permissionGranted b jobTitle isSuccess),
      permissionGranted)"

text \<open>The returned values of a call sequence, in order, and the flag after it.\<close>

fun run_calls :: "bool \<Rightarrow> call list \<Rightarrow> ret list \<times> bool" where
  "run_calls permissionGranted [] = ([], permissionGranted)"
| "run_calls permissionGranted (c # cs) =
     (let (r, g) = module_step permissionGranted c;
          (rs, g') = run_calls g cs
      in (r # rs, g'))"

section \<open>Sample data\<close>

text \<open>
  Job A as polled while processing (queue position 1, stage separating, 40 percent)
  and a push event for it (stage transcribing, 10 percent).
\<close>

definition job_A :: job where
  "job_A = \<lparr>job_id = ''A'', status = Processing, queue_position = Val 1,
     progress = Val \<lparr>step = Val ''separating'', percentage = Val 40,
                     message = Undefined, elapsed_seconds = Undefined\<rparr>,
     job_elapsed_seconds = Undefined, estimated_duration_seconds = Undefined,
     error_message = Undefined, custom_name = Undefined, title = Undefined\<rparr>"

definition push_A :: progress_info where
  "push_A = \<lparr>step = Val ''transcribing'', percentage = Val 10,
     message = Undefined, elapsed_seconds = Undefined\<rparr>"

text \<open>
  A queue of three jobs (A and B processing, C failed), two rejections, and four
  behaviours of the remote system.
\<close>

definition job_B :: job where
  "job_B = \<lparr>job_id = ''B'', status = Processing, queue_position = Val 0,
     progress = Val \<lparr>step = Val ''pitching'', percentage = Val 75,
                     message = Val ''Detecting pitch'', elapsed_seconds = Val 90\<rparr>,
     job_elapsed_seconds = Undefined, estimated_duration_seconds = Val 120,
     error_message = Null, custom_name = Null, title = Val ''Song B''\<rparr>"

definition job_C :: job where
  "job_C = \<lparr>job_id = ''C'', status = Failed, queue_position = Null,
     progress = Null,
     job_elapsed_seconds = Val 30, estimated_duration_seconds = Val 120,
     error_message = Val ''Separation failed'', custom_name = Null, title = Val ''Song C''\<rparr>"

definition queue_ABC :: queue_state where
  "queue_ABC = \<lparr>jobs = [job_A, job_B, job_C], isLoading = False, selectedFilter = ''all''\<rparr>"

definition err_network :: remote_error where
  "err_network = \<lparr>detail = Undefined, err_message = Val ''Network Error''\<rparr>"

definition err_refused :: remote_error where
  "err_refused = \<lparr>detail = Val ''Invalid state transition'',
     err_message = Val ''Request failed with status code 400''\<rparr>"

definition env_down :: env where
  "env_down = \<lparr>api_listJobs = (\<lambda>limit offset. Inl err_network),
     api_cancelJob = (\<lambda>jobId. Inl err_network),
     api_retryJob = (\<lambda>jobId. Inl err_network),
     api_deleteJob = (\<lambda>jobId. Inl err_network),
     confirm = (\<lambda>question. True)\<rparr>"

definition env_refusing :: env where
  "env_refusing = \<lparr>api_listJobs = (\<lambda>limit offset. Inr \<lparr>response_jobs = [job_A, job_B, job_C]\<rparr>),
     api_cancelJob = (\<lambda>jobId. Inl err_refused),
     api_retryJob = (\<lambda>jobId. Inl err_refused),
     api_deleteJob = (\<lambda>jobId. Inl err_refused),
     confirm = (\<lambda>question. True)\<rparr>"

definition env_B_cancelled :: env where
  "env_B_cancelled =
     \<lparr>api_listJobs = (\<lambda>limit offset.
        Inr \<lparr>response_jobs =
          [job_A, job_B\<lparr>status := Cancelled, queue_position := Null, progress := Null\<rparr>, job_C]\<rparr>),
      api_cancelJob = (\<lambda>jobId. Inr ()),
      api_retryJob = (\<lambda>jobId. Inr ()),
      api_deleteJob = (\<lambda>jobId. Inr ()),
      confirm = (\<lambda>question. True)\<rparr>"

definition env_B_gone :: env where
  "env_B_gone =
     \<lparr>api_listJobs = (\<lambda>limit offset. Inr \<lparr>response_jobs = [job_A, job_C]\<rparr>),
      api_cancelJob = (\<lambda>jobId. Inr ()),
      api_retryJob = (\<lambda>jobId. Inr ()),
      api_deleteJob = (\<lambda>jobId. Inr ()),
      confirm = (\<lambda>question. True)\<rparr>"

text \<open>
  Four browsers and a call sequence in which permission is asked for three times and
  never obtained.
\<close>

definition browser_granted :: browser where
  "browser_granted = \<lparr>has_Notification = True, Notification_permission = Perm_granted\<rparr>"

definition browser_denied :: browser where
  "browser_denied = \<lparr>has_Notification = True, Notification_permission = Perm_denied\<rparr>"

definition browser_undecided :: browser where
  "browser_undecided = \<lparr>has_Notification = True, Notification_permission = Perm_default\<rparr>"

definition browser_without :: browser where
  "browser_without = \<lparr>has_Notification = False, Notification_permission = Perm_default\<rparr>"

definition no_options :: notification_options where
  "no_options = \<lparr>icon = None, badge = None, body = None, tag = None,
     requireInteraction = None\<rparr>"

definition calls_never_granted :: "call list" where
  "calls_never_granted =
     [Call_show browser_granted ''hello'' no_options,
      Call_request browser_without Perm_granted,
      Call_notify browser_granted ''Song A'' True,
      Call_request browser_denied Perm_granted,
      Call_request browser_undecided Perm_denied,
      Call_show browser_granted ''again'' no_options]"

text \<open>
  The card of job A (fresh, and holding the push event), later snapshots of A (42
  percent; no percentage; no percentage and 30 seconds on the job itself), two input
  sequences of that card, and job B reported completed with its queue position and
  progress still attached.
\<close>

definition card_A :: card where
  "card_A = \<lparr>progress_value = Null, props_job = job_A\<rparr>"

definition card_A_pushed :: card where
  "card_A_pushed = \<lparr>progress_value = Val push_A, props_job = job_A\<rparr>"

definition job_A_later :: job where
  "job_A_later = job_A\<lparr>progress := Val \<lparr>step = Val ''separating'', percentage = Val 42,
     message = Undefined, elapsed_seconds = Undefined\<rparr>\<rparr>"

definition trace_stale_push :: "card_input list" where
  "trace_stale_push =
     [Poll_start, Poll_result job_A, Push push_A, Poll_start, Poll_result job_A_later]"

definition trace_fresh_push :: "card_input list" where
  "trace_fresh_push = [Poll_start, Poll_result job_A, Poll_start, Push push_A, Poll_result job_A_later]"

definition job_A_bare :: job where
  "job_A_bare = job_A\<lparr>progress := Val \<lparr>step = Val ''separating'', percentage = Undefined,
     message = Undefined, elapsed_seconds = Undefined\<rparr>\<rparr>"

definition job_A_timed :: job where
  "job_A_timed = job_A_bare\<lparr>job_elapsed_seconds := Val 30\<rparr>"

definition job_B_done :: job where
  "job_B_done = job_B\<lparr>status := Completed\<rparr>"

definition env_B_done :: env where
  "env_B_done =
     \<lparr>api_listJobs = (\<lambda>limit offset. Inr \<lparr>response_jobs = [job_A, job_B_done, job_C]\<rparr>),
      api_cancelJob = (\<lambda>jobId. Inr ()),
      api_retryJob = (\<lambda>jobId. Inr ()),
      api_deleteJob = (\<lambda>jobId. Inr ()),
      confirm = (\<lambda>question. True)\<rparr>"

definition push_late :: progress_info where
  "push_late = \<lparr>step = Val ''generating'', percentage = Val 99,
     message = Val ''Generating file'', elapsed_seconds = Val 95\<rparr>"

definition card_B_done :: card where
  "card_B_done = \<lparr>progress_value = Null, props_job = job_B_done\<rparr>"

section \<open>Stage classification\<close>

lemma findIndex_keys: "i < 5 \<Longrightarrow> findIndex (\<lambda>s. key s = map key steps ! i) steps = int i"
  by (auto simp: steps_def less_Suc_eq numeral_nat)

lemma findIndex_none: "\<forall>x\<in>set xs. \<not> P x \<Longrightarrow> findIndex P xs = - 1"
  by (induction xs) simp_all

text \<open>
  C6.  The catalog has the five keys in the order downloading, separating,
  transcribing, pitching, generating.  For a target key at position \<open>i\<close> and a current
  stage at position \<open>k\<close> of the catalog, \<open>getStepStatus\<close> answers completed when
  \<open>i < k\<close>, active when \<open>i = k\<close> and pending when \<open>i > k\<close>.  When the current
  stage is unknown (none reported by push or poll, or a key outside the catalog), every
  target is pending.
\<close>

theorem getStepStatus_classifies:
  "map key steps = [''downloading'', ''separating'', ''transcribing'', ''pitching'', ''generating'']
   \<and> (\<forall>i<5. \<forall>k<5. currentStep p j = Val (map key steps ! k) \<longrightarrow>
         getStepStatus p j (map key steps ! i) =
           (if i < k then Step_completed else if i = k then Step_active else Step_pending))
   \<and> (currentStep p j \<notin> Val ` key ` set steps \<longrightarrow> (\<forall>t. getStepStatus p j t = Step_pending))"
proof (intro conjI allI impI)
  show "map key steps = [''downloading'', ''separating'', ''transcribing'', ''pitching'', ''generating'']"
    by (simp add: steps_def)
next
  fix i k :: nat
  assume ik: "i < 5" "k < 5" and cur: "currentStep p j = Val (map key steps ! k)"
  have "findIndex (\<lambda>s. Val (key s) = currentStep p j) steps = int k"
    using findIndex_keys [OF ik(2)] by (simp add: cur)
  moreover have "findIndex (\<lambda>s. key s = map key steps ! i) steps = int i"
    by (rule findIndex_keys [OF ik(1)])
  ultimately show "getStepStatus p j (map key steps ! i) =
      (if i < k then Step_completed else if i = k then Step_active else Step_pending)"
    by (simp add: getStepStatus_def Let_def)
next
  fix t
  assume "currentStep p j \<notin> Val ` key ` set steps"
  then have "\<forall>s\<in>set steps. \<not> Val (key s) = currentStep p j"
    by (metis image_eqI)
  then have "findIndex (\<lambda>s. Val (key s) = currentStep p j) steps = - 1"
    by (rule findIndex_none)
  then show "getStepStatus p j t = Step_pending"
    by (simp add: getStepStatus_def Let_def)
qed

theorem getStepStatus_classifies_witness:
  "getStepStatus (Val push_A) job_A ''separating'' = Step_completed
   \<and> getStepStatus (Val push_A) job_A ''transcribing'' = Step_active
   \<and> getStepStatus (Val push_A) job_A ''pitching'' = Step_pending
   \<and> getStepStatus Null (job_A\<lparr>progress := Null\<rparr>) ''downloading'' = Step_pending"
proof -
  have cur: "currentStep (Val push_A) job_A = Val (map key steps ! 2)"
    by (simp add: currentStep_def or_str_def push_A_def steps_def)
  have none: "currentStep Null (job_A\<lparr>progress := Null\<rparr>) \<notin> Val ` key ` set steps"
    by (simp add: currentStep_def or_str_def job_A_def image_iff)
  note T = getStepStatus_classifies [of "Val push_A" job_A,
      THEN conjunct2, THEN conjunct1, rule_format, of _ 2]
  have a: "getStepStatus (Val push_A) job_A (map key steps ! 1) = Step_completed"
    using T [of 1] cur by simp
  have b: "getStepStatus (Val push_A) job_A (map key steps ! 2) = Step_active"
    using T [of 2] cur by simp
  have c: "getStepStatus (Val push_A) job_A (map key steps ! 3) = Step_pending"
    using T [of 3] cur by simp
  have d: "getStepStatus Null (job_A\<lparr>progress := Null\<rparr>) ''downloading'' = Step_pending"
    using getStepStatus_classifies [of Null "job_A\<lparr>progress := Null\<rparr>"] none by blast
  from a b c d show ?thesis by (simp add: steps_def)
qed

section \<open>Polling\<close>

text \<open>
  C5.  When the poll's \<open>listJobs\<close> call rejects, \<open>refreshJobs\<close> leaves the tracked
  jobs exactly as they were (the only ref it changes is \<open>isLoading\<close>, set back to
  false), logs the error, and its own promise resolves: no exception leaves the refresh.
\<close>

theorem refreshJobs_failure_keeps_jobs:
  assumes "api_listJobs e 50 0 = Inl err"
  shows "settled (refreshJobs e s) = Inr ()
       \<and> jobs (state_after (refreshJobs e s)) = jobs s
       \<and> state_after (refreshJobs e s) = s\<lparr>isLoading := False\<rparr>
       \<and> effects (refreshJobs e s) = [Call_listJobs 50 0, Console_error ''Failed to load jobs:'' err]"
  using assms by (simp add: refreshJobs_def settled_def state_after_def effects_def)

theorem refreshJobs_failure_keeps_jobs_witness:
  "settled (refreshJobs env_down queue_ABC) = Inr ()
   \<and> jobs (state_after (refreshJobs env_down queue_ABC)) = [job_A, job_B, job_C]"
proof -
  have "api_listJobs env_down 50 0 = Inl err_network"
    by (simp add: env_down_def)
  from refreshJobs_failure_keeps_jobs [OF this, of queue_ABC]
  show ?thesis by (simp add: queue_ABC_def)
qed

text \<open>
  C7.  After a successful poll the tracked jobs are exactly the jobs of the returned
  snapshot; hence every job id tracked before and absent from the snapshot is tracked
  no longer.
\<close>

theorem refreshJobs_success_replaces_jobs:
  assumes "api_listJobs e 50 0 = Inr r"
  shows "jobs (state_after (refreshJobs e s)) = response_jobs r
       \<and> (\<forall>jid. jid \<in> job_id ` set (jobs s) \<and> jid \<notin> job_id ` set (response_jobs r)
             \<longrightarrow> jid \<notin> job_id ` set (jobs (state_after (refreshJobs e s))))"
  using assms by (simp add: refreshJobs_def state_after_def)

theorem refreshJobs_success_replaces_jobs_witness:
  "''B'' \<in> job_id ` set (jobs queue_ABC)
   \<and> map job_id (jobs (state_after (refreshJobs env_B_gone queue_ABC))) = [''A'', ''C'']
   \<and> ''B'' \<notin> job_id ` set (jobs (state_after (refreshJobs env_B_gone queue_ABC)))"
proof -
  have ok: "api_listJobs env_B_gone 50 0 = Inr \<lparr>response_jobs = [job_A, job_C]\<rparr>"
    by (simp add: env_B_gone_def)
  have before: "''B'' \<in> job_id ` set (jobs queue_ABC)"
    by (simp add: queue_ABC_def job_B_def)
  have absent: "''B'' \<notin> job_id ` set (response_jobs \<lparr>response_jobs = [job_A, job_C]\<rparr>)"
    by (simp add: job_A_def job_C_def)
  from refreshJobs_success_replaces_jobs [OF ok, of queue_ABC] before absent
  show ?thesis by (simp add: job_A_def job_C_def)
qed

lemma refreshJobs_Inl:
  "api_listJobs e 50 0 = Inl err \<Longrightarrow>
   refreshJobs e s =
     (Inr (), s\<lparr>isLoading := False\<rparr>,
      [Call_listJobs 50 0, Console_error ''Failed to load jobs:'' err])"
  by (simp add: refreshJobs_def)

lemma refreshJobs_Inr:
  "api_listJobs e 50 0 = Inr r \<Longrightarrow>
   refreshJobs e s =
     (Inr (), s\<lparr>jobs := response_jobs r, isLoading := False\<rparr>, [Call_listJobs 50 0])"
  by (simp add: refreshJobs_def)

section \<open>Lifecycle commands\<close>

text \<open>
  C4.  When the remote system rejects a cancel, retry or delete command, the handler
  leaves every ref of the component (the tracked jobs among them) as it was, reports
  the failure with an \<open>alert\<close> (for retry with the remote reason), and has issued the
  command exactly once and no other remote call.  Delete reaches the remote system only
  after the user has confirmed.
\<close>

theorem rejected_command_leaves_state:
  "(api_cancelJob e jobId = Inl err \<longrightarrow>
      state_after (handleCancel e s jobId) = s
      \<and> filter is_remote_call (effects (handleCancel e s jobId)) = [Call_cancelJob jobId]
      \<and> filter is_alert (effects (handleCancel e s jobId)) = [Alert ''Failed to cancel job''])
   \<and> (api_retryJob e jobId = Inl err \<longrightarrow>
      state_after (handleRetry e s jobId) = s
      \<and> filter is_remote_call (effects (handleRetry e s jobId)) = [Call_retryJob jobId]
      \<and> filter is_alert (effects (handleRetry e s jobId)) = [Alert (retry_alert err)])
   \<and> (confirm e ''Are you sure you want to delete this job?'' \<and> api_deleteJob e jobId = Inl err \<longrightarrow>
      state_after (handleDelete e s jobId) = s
      \<and> filter is_remote_call (effects (handleDelete e s jobId)) = [Call_deleteJob jobId]
      \<and> filter is_alert (effects (handleDelete e s jobId)) = [Alert ''Failed to delete job''])"
  by (simp add: handleCancel_def handleRetry_def handleDelete_def state_after_def effects_def)

theorem rejected_command_leaves_state_witness:
  "state_after (handleCancel env_refusing queue_ABC ''B'') = queue_ABC
   \<and> filter is_remote_call (effects (handleCancel env_refusing queue_ABC ''B'')) = [Call_cancelJob ''B'']
   \<and> state_after (handleRetry env_refusing queue_ABC ''C'') = queue_ABC
   \<and> filter is_alert (effects (handleRetry env_refusing queue_ABC ''C'')) =
        [Alert ''Failed to retry job: Invalid state transition'']
   \<and> state_after (handleDelete env_refusing queue_ABC ''A'') = queue_ABC
   \<and> filter is_remote_call (effects (handleDelete env_refusing queue_ABC ''A'')) = [Call_deleteJob ''A'']"
proof -
  have c: "api_cancelJob env_refusing ''B'' = Inl err_refused"
    and r: "api_retryJob env_refusing ''C'' = Inl err_refused"
    and d: "confirm env_refusing ''Are you sure you want to delete this job?''
            \<and> api_deleteJob env_refusing ''A'' = Inl err_refused"
    by (simp_all add: env_refusing_def)
  have a: "retry_alert err_refused = ''Failed to retry job: Invalid state transition''"
    by (simp add: retry_alert_def err_refused_def or_str_def)
  from rejected_command_leaves_state [of env_refusing "''B''" err_refused queue_ABC] c
  have 1: "state_after (handleCancel env_refusing queue_ABC ''B'') = queue_ABC
     \<and> filter is_remote_call (effects (handleCancel env_refusing queue_ABC ''B'')) = [Call_cancelJob ''B'']"
    by blast
  from rejected_command_leaves_state [of env_refusing "''C''" err_refused queue_ABC] r a
  have 2: "state_after (handleRetry env_refusing queue_ABC ''C'') = queue_ABC
     \<and> filter is_alert (effects (handleRetry env_refusing queue_ABC ''C'')) =
        [Alert ''Failed to retry job: Invalid state transition'']"
    by metis
  from rejected_command_leaves_state [of env_refusing "''A''" err_refused queue_ABC] d
  have 3: "state_after (handleDelete env_refusing queue_ABC ''A'') = queue_ABC
     \<and> filter is_remote_call (effects (handleDelete env_refusing queue_ABC ''A'')) = [Call_deleteJob ''A'']"
    by blast
  from 1 2 3 show ?thesis by simp
qed

text \<open>
  C8.  For a job that is queued or processing the card offers the cancel button; when
  the remote cancel succeeds, the handler's next step is a poll (\<open>listJobs\<close>) within
  the same run, not the next tick of the interval timer.  The handler writes no status
  itself: the tracked jobs afterwards are those of that poll, or unchanged when that
  poll fails.
\<close>

theorem cancel_success_refreshes_immediately:
  assumes "status j = Queued \<or> status j = Processing"
    and "api_cancelJob e (job_id j) = Inr ()"
  shows "click j Cancel_button = Some (Emit_cancel (job_id j))
       \<and> take 2 (effects (press e s j Cancel_button)) = [Call_cancelJob (job_id j), Call_listJobs 50 0]
       \<and> state_after (press e s j Cancel_button) = state_after (refreshJobs e s)
       \<and> jobs (state_after (press e s j Cancel_button)) =
           (case api_listJobs e 50 0 of Inr r \<Rightarrow> response_jobs r | Inl err \<Rightarrow> jobs s)"
proof -
  have c: "click j Cancel_button = Some (Emit_cancel (job_id j))"
    using assms(1) by auto
  show ?thesis
  proof (cases "api_listJobs e 50 0")
    case (Inl err)
    then show ?thesis
      using c assms(2)
      by (simp add: press_def handleCancel_def refreshJobs_Inl state_after_def effects_def)
  next
    case (Inr r)
    then show ?thesis
      using c assms(2)
      by (simp add: press_def handleCancel_def refreshJobs_Inr state_after_def effects_def)
  qed
qed

theorem cancel_success_refreshes_immediately_witness:
  "take 2 (effects (press env_B_cancelled queue_ABC job_B Cancel_button)) =
     [Call_cancelJob ''B'', Call_listJobs 50 0]
   \<and> map status (jobs (state_after (press env_B_cancelled queue_ABC job_B Cancel_button))) =
     [Processing, Cancelled, Failed]"
proof -
  have st: "status job_B = Queued \<or> status job_B = Processing"
    by (simp add: job_B_def)
  have ok: "api_cancelJob env_B_cancelled (job_id job_B) = Inr ()"
    by (simp add: env_B_cancelled_def)
  have ls: "api_listJobs env_B_cancelled 50 0 =
      Inr \<lparr>response_jobs =
        [job_A, job_B\<lparr>status := Cancelled, queue_position := Null, progress := Null\<rparr>, job_C]\<rparr>"
    by (simp add: env_B_cancelled_def)
  have idB: "job_id job_B = ''B''"
    by (simp add: job_B_def)
  note T = cancel_success_refreshes_immediately [OF st ok, of queue_ABC]
  from T [THEN conjunct2, THEN conjunct1]
  have 1: "take 2 (effects (press env_B_cancelled queue_ABC job_B Cancel_button)) =
      [Call_cancelJob ''B'', Call_listJobs 50 0]"
    by (simp add: idB)
  from T [THEN conjunct2, THEN conjunct2, THEN conjunct2]
  have 2: "jobs (state_after (press env_B_cancelled queue_ABC job_B Cancel_button)) =
      [job_A, job_B\<lparr>status := Cancelled, queue_position := Null, progress := Null\<rparr>, job_C]"
    by (simp add: ls)
  have 3: "map status
      [job_A, job_B\<lparr>status := Cancelled, queue_position := Null, progress := Null\<rparr>, job_C] =
      [Processing, Cancelled, Failed]"
    by (simp add: job_A_def job_C_def)
  show ?thesis
    unfolding 2 using 1 3 by simp
qed

lemma press_retry_first:
  assumes "status j = Failed \<or> status j = Cancelled"
  shows "take 1 (effects (press e s j Retry_button)) = [Call_retryJob (job_id j)]"
proof -
  show ?thesis
  proof (cases "api_retryJob e (job_id j)")
    case (Inl err)
    with assms show ?thesis
      by (auto simp: press_def handleRetry_def effects_def)
  next
    case (Inr u)
    with assms show ?thesis
      by (cases "api_listJobs e 50 0")
        (auto simp: press_def handleRetry_def effects_def refreshJobs_Inl refreshJobs_Inr)
  qed
qed

text \<open>
  C3.  Retry can be invoked on a job only through the retry button of its card, and
  the card renders that button only while the job's last known status is failed or
  cancelled.  For any other status (processing, for example) pressing retry reaches no
  handler: nothing is emitted, no remote call is made and no ref changes.  For failed
  and cancelled jobs the press emits \<open>retry\<close> and the handler's first effect is the
  remote retry call.  The check is the card's \<open>v-if\<close>; \<open>handleRetry\<close> has none of its
  own and is reachable only through that event.
\<close>

theorem retry_offered_only_when_failed_or_cancelled:
  "(status j \<noteq> Failed \<and> status j \<noteq> Cancelled \<longrightarrow>
      click j Retry_button = None
      \<and> press e s j Retry_button = (Inr (), s, [])
      \<and> filter is_remote_call (effects (press e s j Retry_button)) = [])
   \<and> (status j = Failed \<or> status j = Cancelled \<longrightarrow>
      click j Retry_button = Some (Emit_retry (job_id j))
      \<and> take 1 (effects (press e s j Retry_button)) = [Call_retryJob (job_id j)])
   \<and> (\<forall>b jid. click j b = Some (Emit_retry jid) \<longrightarrow> status j = Failed \<or> status j = Cancelled)"
proof -
  have only: "status j = Failed \<or> status j = Cancelled"
    if "click j b = Some (Emit_retry jid)" for b jid
    using that by (cases b) (auto split: if_splits)
  show ?thesis
    using only press_retry_first [of j e s] by (auto simp: press_def effects_def)
qed

theorem retry_offered_only_when_failed_or_cancelled_witness:
  "press env_B_cancelled queue_ABC job_B Retry_button = (Inr (), queue_ABC, [])
   \<and> click job_C Retry_button = Some (Emit_retry ''C'')
   \<and> take 1 (effects (press env_B_cancelled queue_ABC job_C Retry_button)) = [Call_retryJob ''C'']"
proof -
  have b: "status job_B \<noteq> Failed \<and> status job_B \<noteq> Cancelled"
    by (simp add: job_B_def)
  have c: "status job_C = Failed \<or> status job_C = Cancelled"
    by (simp add: job_C_def)
  from retry_offered_only_when_failed_or_cancelled [of job_B env_B_cancelled queue_ABC] b
  have 1: "press env_B_cancelled queue_ABC job_B Retry_button = (Inr (), queue_ABC, [])"
    by blast
  from retry_offered_only_when_failed_or_cancelled [of job_C env_B_cancelled queue_ABC] c
  have 2: "click job_C Retry_button = Some (Emit_retry (job_id job_C))
     \<and> take 1 (effects (press env_B_cancelled queue_ABC job_C Retry_button)) =
         [Call_retryJob (job_id job_C)]"
    by blast
  from 1 2 show ?thesis by (simp add: job_C_def)
qed

section \<open>Notifications\<close>

lemma module_step_not_granted:
  assumes "module_step False c = (r, g)" and "r \<noteq> Ret_bool True"
  shows "g = False \<and> (\<forall>x. r = Ret_notification x \<longrightarrow> x = Inr None)"
proof (cases c)
  case (Call_request b answer)
  with assms show ?thesis
    by (auto simp: requestNotificationPermission_def split: if_splits)
next
  case (Call_show b t opts)
  with assms show ?thesis
    by (auto simp: showNotification_def)
next
  case (Call_notify b t ok)
  with assms show ?thesis
    by (auto simp: notifyJobComplete_def showNotification_def Let_def)
qed

lemma run_calls_not_granted:
  "Ret_bool True \<notin> set (fst (run_calls False cs)) \<Longrightarrow>
   snd (run_calls False cs) = False
   \<and> (\<forall>r\<in>set (fst (run_calls False cs)). \<forall>x. r = Ret_notification x \<longrightarrow> x = Inr None)"
proof (induction cs)
  case Nil
  then show ?case by simp
next
  case (Cons c cs)
  obtain r g where step: "module_step False c = (r, g)"
    by (cases "module_step False c")
  obtain rs g' where rest: "run_calls g cs = (rs, g')"
    by (cases "run_calls g cs")
  from Cons.prems step rest have r: "r \<noteq> Ret_bool True"
    by auto
  from module_step_not_granted [OF step r]
  have g: "g = False" and null: "\<forall>x. r = Ret_notification x \<longrightarrow> x = Inr None"
    by simp_all
  from Cons.prems step rest g have "Ret_bool True \<notin> set (fst (run_calls False cs))"
    by auto
  from Cons.IH [OF this] step rest g null show ?case
    by auto
qed

lemma flag_set_only_by_request:
  assumes "snd (module_step False c)"
  shows "\<exists>b answer. c = Call_request b answer \<and> fst (module_step False c) = Ret_bool True
           \<and> has_Notification b
           \<and> (Notification_permission b = Perm_granted \<or> answer = Perm_granted)"
  using assms
  by (cases c) (auto simp: requestNotificationPermission_def split: if_splits)

text \<open>
  C10.  The flag \<open>permissionGranted\<close> is false when the module is loaded.  After every
  call sequence in which no \<open>requestNotificationPermission\<close> call has returned true
  the flag is still false, every \<open>showNotification\<close> and \<open>notifyJobComplete\<close> call of
  the sequence has returned \<open>null\<close> (no \<open>Notification\<close> constructed, no exception), and
  so does the next such call, whatever the browser.  A call turns the flag from false
  to true only if it is a \<open>requestNotificationPermission\<close> call that returns true, in
  a browser with \<open>Notification\<close>, having found the permission granted or obtained it
  from the prompt.
\<close>

theorem no_notification_before_permission:
  "permissionGranted_init = False
   \<and> (Ret_bool True \<notin> set (fst (run_calls permissionGranted_init cs)) \<longrightarrow>
        snd (run_calls permissionGranted_init cs) = False
        \<and> (\<forall>r\<in>set (fst (run_calls permissionGranted_init cs)).
              \<forall>x. r = Ret_notification x \<longrightarrow> x = Inr None)
        \<and> (\<forall>b t opts. showNotification (snd (run_calls permissionGranted_init cs)) b t opts = Inr None)
        \<and> (\<forall>b t ok. notifyJobComplete (snd (run_calls permissionGranted_init cs)) b t ok = Inr None))
   \<and> (\<forall>c. snd (module_step False c) \<longrightarrow>
        (\<exists>b answer. c = Call_request b answer \<and> fst (module_step False c) = Ret_bool True
           \<and> has_Notification b
           \<and> (Notification_permission b = Perm_granted \<or> answer = Perm_granted)))"
proof (intro conjI impI allI)
  show "permissionGranted_init = False"
    by (simp add: permissionGranted_init_def)
next
  fix c
  assume "snd (module_step False c)"
  then show "\<exists>b answer. c = Call_request b answer \<and> fst (module_step False c) = Ret_bool True
           \<and> has_Notification b
           \<and> (Notification_permission b = Perm_granted \<or> answer = Perm_granted)"
    by (rule flag_set_only_by_request)
next
  assume "Ret_bool True \<notin> set (fst (run_calls permissionGranted_init cs))"
  then have n: "Ret_bool True \<notin> set (fst (run_calls False cs))"
    by (simp add: permissionGranted_init_def)
  note R = run_calls_not_granted [OF n]
  from R show f: "snd (run_calls permissionGranted_init cs) = False"
    by (simp add: permissionGranted_init_def)
  from R show "\<forall>r\<in>set (fst (run_calls permissionGranted_init cs)).
      \<forall>x. r = Ret_notification x \<longrightarrow> x = Inr None"
    by (simp add: permissionGranted_init_def)
  fix b t
  show "showNotification (snd (run_calls permissionGranted_init cs)) b t opts = Inr None" for opts
    by (simp add: f showNotification_def)
  show "notifyJobComplete (snd (run_calls permissionGranted_init cs)) b t ok = Inr None" for ok
    by (simp add: f notifyJobComplete_def showNotification_def Let_def)
qed

theorem no_notification_before_permission_witness:
  "Ret_bool True \<notin> set (fst (run_calls permissionGranted_init calls_never_granted))
   \<and> snd (run_calls permissionGranted_init calls_never_granted) = False
   \<and> showNotification (snd (run_calls permissionGranted_init calls_never_granted))
        browser_granted ''late'' no_options = Inr None"
proof -
  have rets: "fst (run_calls permissionGranted_init calls_never_granted) =
      [Ret_notification (Inr None), Ret_bool False, Ret_notification (Inr None),
       Ret_bool False, Ret_bool False, Ret_notification (Inr None)]"
    by (simp add: calls_never_granted_def permissionGranted_init_def
        requestNotificationPermission_def showNotification_def notifyJobComplete_def Let_def
        browser_granted_def browser_denied_def browser_undecided_def browser_without_def)
  then have never: "Ret_bool True \<notin> set (fst (run_calls permissionGranted_init calls_never_granted))"
    by simp
  from no_notification_before_permission [of calls_never_granted] never
  show ?thesis by blast
qed

text \<open>
  For contrast: once a request has returned true, a notification is constructed, with
  the default icon and badge.
\<close>

lemma notification_after_grant:
  "fst (run_calls permissionGranted_init
     [Call_request browser_undecided Perm_granted,
      Call_show browser_granted ''hello'' no_options]) =
   [Ret_bool True,
    Ret_notification (Inr (Some \<lparr>n_title = ''hello'',
      n_options = no_options\<lparr>icon := Some (Val ''/icon.png''),
        badge := Some (Val ''/icon.png'')\<rparr>\<rparr>))]"
  by (simp add: permissionGranted_init_def requestNotificationPermission_def
      showNotification_def with_defaults_def no_options_def browser_undecided_def
      browser_granted_def)

text \<open>An own property \<open>icon: undefined\<close> of the options replaces the default icon.\<close>

lemma explicit_undefined_icon_overrides:
  "icon (with_defaults (no_options\<lparr>icon := Some Undefined\<rparr>)) = Some Undefined
   \<and> badge (with_defaults (no_options\<lparr>icon := Some Undefined\<rparr>)) = Some (Val ''/icon.png'')"
  by (simp add: with_defaults_def no_options_def)

section \<open>Push and poll progress on a card\<close>

lemma card_run_Cons: "card_run c (x # t) = card_run (card_step c x) t"
  by (simp add: card_run_def)

lemma progress_value_card_run:
  "progress_value (card_run c t) =
     (case last_push t of Some ev \<Rightarrow> Val ev | None \<Rightarrow> progress_value c)"
proof (induction t arbitrary: c)
  case Nil
  then show ?case by (simp add: card_run_def)
next
  case (Cons x t)
  show ?case
    by (cases x) (simp_all add: card_run_Cons Cons.IH split: option.splits)
qed

lemma props_job_card_run: "props_job (card_run c t) = latest_job (props_job c) t"
proof (induction t arbitrary: c)
  case Nil
  then show ?case by (simp add: card_run_def)
next
  case (Cons x t)
  show ?case
    by (cases x) (simp_all add: card_run_Cons Cons.IH)
qed

text \<open>
  C1 as stated fails.  Job A is polled at 40 percent, a push event reports 10 percent,
  then a new poll cycle starts and returns 42 percent.  No push event has arrived since
  that cycle began, so the rule as stated presents 42; the card presents 10.
\<close>

theorem push_precedence_counterexample:
  "spec_fresh_push None trace_stale_push = None
   \<and> spec_percentage card_A trace_stale_push = Val 42
   \<and> card_percentage (card_run card_A trace_stale_push) = 10
   \<and> card_percentage (card_run card_A trace_stale_push)
        \<noteq> round_defined (spec_percentage card_A trace_stale_push)"
  by (simp add: trace_stale_push_def spec_percentage_def card_percentage_def card_run_def
      progressPercentage_def card_A_def push_A_def job_A_later_def Math_round_def)

text \<open>
  C1 (amended).  On a mounted card the presented percentage, message, stage and elapsed
  seconds are those of the most recently received push event, for every field that
  event carries (a percentage that is not \<open>undefined\<close>: a number is shown rounded,
  \<open>null\<close> is shown as \<open>0\<close>; a non-empty message or stage; a non-zero elapsed time),
  whenever any push event has been received since the card was mounted: no matter how
  many poll cycles have started or completed since.  A poll result therefore never
  overwrites push-derived progress.  While no push event has been received (the ref
  still \<open>null\<close> or \<open>undefined\<close>), the poll snapshot's values are presented.
\<close>

theorem push_takes_precedence:
  "(last_push t = Some ev \<longrightarrow>
      (\<forall>x. percentage ev = Val x \<longrightarrow> card_percentage (card_run c t) = Math_round x)
      \<and> (\<forall>m. message ev = Val m \<and> m \<noteq> [] \<longrightarrow> card_message (card_run c t) = m)
      \<and> (\<forall>k. step ev = Val k \<and> k \<noteq> [] \<longrightarrow> card_stage (card_run c t) = Val k)
      \<and> (\<forall>d. elapsed_seconds ev = Val d \<and> d \<noteq> 0 \<longrightarrow> card_elapsed (card_run c t) = Val d)
      \<and> (percentage ev = Null \<longrightarrow> card_percentage (card_run c t) = 0))
   \<and> (last_push t = None \<and> (progress_value c = Null \<or> progress_value c = Undefined) \<longrightarrow>
      card_percentage (card_run c t) =
        (case chain (progress (latest_job (props_job c) t)) percentage of
           Val y \<Rightarrow> Math_round y | _ \<Rightarrow> 0)
      \<and> card_message (card_run c t) =
        (case chain (progress (latest_job (props_job c) t)) message of
           Val m \<Rightarrow> (if m \<noteq> [] then m else ''Initializing...'') | _ \<Rightarrow> ''Initializing...'')
      \<and> card_stage (card_run c t) = chain (progress (latest_job (props_job c) t)) step
      \<and> card_elapsed (card_run c t) =
        or_num (chain (progress (latest_job (props_job c) t)) elapsed_seconds)
          (job_elapsed_seconds (latest_job (props_job c) t)))"
proof (intro conjI impI allI)
  assume lp: "last_push t = Some ev"
  then have pv: "progress_value (card_run c t) = Val ev"
    by (simp add: progress_value_card_run)
  show "card_percentage (card_run c t) = Math_round x" if "percentage ev = Val x" for x
    using that by (simp add: card_percentage_def pv progressPercentage_def)
  show "card_message (card_run c t) = m" if "message ev = Val m \<and> m \<noteq> []" for m
    using that by (simp add: card_message_def pv currentStepMessage_def)
  show "card_stage (card_run c t) = Val k" if "step ev = Val k \<and> k \<noteq> []" for k
    using that by (simp add: card_stage_def pv currentStep_def or_str_def)
  show "card_elapsed (card_run c t) = Val d" if "elapsed_seconds ev = Val d \<and> d \<noteq> 0" for d
    using that by (simp add: card_elapsed_def pv elapsedSeconds_def or_num_def)
  show "card_percentage (card_run c t) = 0" if "percentage ev = Null"
    using that by (simp add: card_percentage_def pv progressPercentage_def)
next
  assume np: "last_push t = None \<and> (progress_value c = Null \<or> progress_value c = Undefined)"
  then have pv: "chain (progress_value (card_run c t)) f = Undefined" for f :: "progress_info \<Rightarrow> 'a js"
    by (auto simp: progress_value_card_run)
  note pj = props_job_card_run [of c t]
  show "card_percentage (card_run c t) =
        (case chain (progress (latest_job (props_job c) t)) percentage of
           Val y \<Rightarrow> Math_round y | _ \<Rightarrow> 0)"
    by (simp add: card_percentage_def pv pj progressPercentage_def split: js.splits)
  show "card_message (card_run c t) =
        (case chain (progress (latest_job (props_job c) t)) message of
           Val m \<Rightarrow> (if m \<noteq> [] then m else ''Initializing...'') | _ \<Rightarrow> ''Initializing...'')"
    by (simp add: card_message_def pv pj currentStepMessage_def split: js.splits)
  show "card_stage (card_run c t) = chain (progress (latest_job (props_job c) t)) step"
    by (simp add: card_stage_def pv pj currentStep_def or_str_def)
  show "card_elapsed (card_run c t) =
        or_num (chain (progress (latest_job (props_job c) t)) elapsed_seconds)
          (job_elapsed_seconds (latest_job (props_job c) t))"
    by (simp add: card_elapsed_def pv pj elapsedSeconds_def or_num_def)
qed

theorem push_takes_precedence_witness:
  "last_push trace_stale_push = Some push_A
   \<and> card_percentage (card_run card_A trace_stale_push) = 10
   \<and> card_stage (card_run card_A trace_stale_push) = Val ''transcribing''
   \<and> last_push [Poll_start, Poll_result job_A_later] = None
   \<and> card_percentage (card_run card_A [Poll_start, Poll_result job_A_later]) = 42
   \<and> card_stage (card_run card_A [Poll_start, Poll_result job_A_later]) = Val ''separating''"
proof -
  have lp: "last_push trace_stale_push = Some push_A"
    by (simp add: trace_stale_push_def)
  have pct: "percentage push_A = Val 10" and stg: "step push_A = Val ''transcribing'' \<and> ''transcribing'' \<noteq> []"
    by (simp_all add: push_A_def)
  note P = push_takes_precedence [of trace_stale_push push_A card_A, THEN conjunct1, rule_format, OF lp]
  from P [THEN conjunct1, rule_format, OF pct]
  have 1: "card_percentage (card_run card_A trace_stale_push) = 10"
    by (simp add: Math_round_def)
  from P [THEN conjunct2, THEN conjunct2, THEN conjunct1, rule_format, OF stg]
  have 2: "card_stage (card_run card_A trace_stale_push) = Val ''transcribing''" .
  have np: "last_push [Poll_start, Poll_result job_A_later] = None
      \<and> (progress_value card_A = Null \<or> progress_value card_A = Undefined)"
    by (simp add: card_A_def)
  have lj: "latest_job (props_job card_A) [Poll_start, Poll_result job_A_later] = job_A_later"
    by simp
  note Q = push_takes_precedence [of "[Poll_start, Poll_result job_A_later]" push_A card_A,
      THEN conjunct2, rule_format, OF np]
  from Q [THEN conjunct1]
  have 3: "card_percentage (card_run card_A [Poll_start, Poll_result job_A_later]) = 42"
    by (simp only: lj) (simp add: job_A_later_def Math_round_def)
  from Q [THEN conjunct2, THEN conjunct2, THEN conjunct1]
  have 4: "card_stage (card_run card_A [Poll_start, Poll_result job_A_later]) = Val ''separating''"
    by (simp only: lj) (simp add: job_A_later_def)
  from lp 1 2 np 3 4 show ?thesis by blast
qed

text \<open>
  The spec's scenario in one cycle window: job A polled at 40 percent (separating), a
  push event with 10 percent (transcribing), then the poll of the same cycle returning
  42 percent.  The card presents the push values.
\<close>

lemma push_wins_within_cycle:
  "card_percentage (card_run card_A trace_fresh_push) = 10
   \<and> card_stage (card_run card_A trace_fresh_push) = Val ''transcribing''"
  by (simp add: trace_fresh_push_def card_run_def card_percentage_def card_stage_def
      progressPercentage_def currentStep_def or_str_def card_A_def push_A_def Math_round_def)

section \<open>Missing fields\<close>

lemma card_run_snoc: "card_run c (t @ [x]) = card_step (card_run c t) x"
  by (simp add: card_run_def)

lemma polls_keep_ref:
  "\<forall>x\<in>set t. \<not> is_push x \<Longrightarrow> progress_value (card_run c t) = progress_value c"
proof (induction t arbitrary: c)
  case Nil
  then show ?case by (simp add: card_run_def)
next
  case (Cons x t)
  then show ?case
    by (cases x) (simp_all add: card_run_Cons)
qed

text \<open>
  C9 as stated fails.  Job A is polled at 40 percent and then polled again with a
  progress object that has no percentage: the displayed percentage drops from 40 to 0.
\<close>

theorem absent_percentage_counterexample:
  "card_percentage (card_run card_A [Poll_result job_A]) = 40
   \<and> chain (progress job_A_bare) percentage = Undefined
   \<and> card_percentage (card_run card_A [Poll_result job_A, Poll_result job_A_bare]) = 0"
  by (simp add: card_percentage_def card_run_def progressPercentage_def card_A_def
      job_A_def job_A_bare_def Math_round_def)

text \<open>
  C9 (amended).  Nothing of an earlier poll snapshot is kept.  After any sequence of
  poll cycles, a poll snapshot without percentage leaves the displayed percentage at
  the one held in the push ref (a number rounded, \<open>null\<close> as \<open>0\<close>), and at \<open>0\<close> when the
  ref holds none; a snapshot whose progress has no elapsed time (or \<open>0\<close>) leaves the
  elapsed time at the ref's non-zero value and otherwise at the job's own
  \<open>elapsed_seconds\<close>.  On the side of the push ref: while the value it holds has no
  percentage (\<open>undefined\<close>), the displayed percentage is the current snapshot's and is
  \<open>0\<close> only when the snapshot has none (or \<open>null\<close>); a percentage of \<open>null\<close> in the ref
  is displayed as \<open>0\<close> whatever the snapshot says; while the ref has no non-zero
  elapsed time, the elapsed time is the snapshot's \<open>progress.elapsed_seconds\<close> and,
  failing that, the job's own.  What the push channel leaves in the ref after an event
  that lacks a field is outside the sources and is not part of this statement.
\<close>

theorem absent_field_not_retained:
  "((\<forall>x\<in>set t. \<not> is_push x) \<and> chain (progress j) percentage = Undefined \<longrightarrow>
      card_percentage (card_run c (t @ [Poll_result j])) =
        (case chain (progress_value c) percentage of Val x \<Rightarrow> Math_round x | _ \<Rightarrow> 0))
   \<and> ((\<forall>x\<in>set t. \<not> is_push x) \<and> \<not> truthy_num (chain (progress j) elapsed_seconds) \<longrightarrow>
      card_elapsed (card_run c (t @ [Poll_result j])) =
        (if truthy_num (chain (progress_value c) elapsed_seconds)
         then chain (progress_value c) elapsed_seconds
         else job_elapsed_seconds j))
   \<and> (chain p percentage = Undefined \<longrightarrow>
      progressPercentage p j =
        (case chain (progress j) percentage of Val y \<Rightarrow> Math_round y | _ \<Rightarrow> 0))
   \<and> (chain p percentage = Null \<longrightarrow> progressPercentage p j = 0)
   \<and> (\<not> truthy_num (chain p elapsed_seconds) \<longrightarrow>
      elapsedSeconds p j = or_num (chain (progress j) elapsed_seconds) (job_elapsed_seconds j))"
proof (intro conjI impI)
  assume a: "(\<forall>x\<in>set t. \<not> is_push x) \<and> chain (progress j) percentage = Undefined"
  then have ref: "progress_value (card_run c t) = progress_value c"
    by (simp add: polls_keep_ref)
  from a show "card_percentage (card_run c (t @ [Poll_result j])) =
      (case chain (progress_value c) percentage of Val x \<Rightarrow> Math_round x | _ \<Rightarrow> 0)"
    by (simp add: card_run_snoc card_percentage_def ref progressPercentage_def split: js.splits)
next
  assume a: "(\<forall>x\<in>set t. \<not> is_push x) \<and> \<not> truthy_num (chain (progress j) elapsed_seconds)"
  then have ref: "progress_value (card_run c t) = progress_value c"
    by (simp add: polls_keep_ref)
  from a show "card_elapsed (card_run c (t @ [Poll_result j])) =
      (if truthy_num (chain (progress_value c) elapsed_seconds)
       then chain (progress_value c) elapsed_seconds
       else job_elapsed_seconds j)"
    by (simp add: card_run_snoc card_elapsed_def ref elapsedSeconds_def or_num_def)
next
  assume "chain p percentage = Undefined"
  then show "progressPercentage p j =
      (case chain (progress j) percentage of Val y \<Rightarrow> Math_round y | _ \<Rightarrow> 0)"
    by (simp add: progressPercentage_def split: js.splits)
next
  assume "chain p percentage = Null"
  then show "progressPercentage p j = 0"
    by (simp add: progressPercentage_def)
next
  assume "\<not> truthy_num (chain p elapsed_seconds)"
  then show "elapsedSeconds p j =
      or_num (chain (progress j) elapsed_seconds) (job_elapsed_seconds j)"
    by (simp add: elapsedSeconds_def or_num_def)
qed

theorem absent_field_not_retained_witness:
  "card_percentage (card_run card_A ([Poll_start, Poll_result job_A] @ [Poll_result job_A_bare])) = 0
   \<and> card_percentage (card_run card_A_pushed ([Poll_start, Poll_result job_A] @ [Poll_result job_A_bare])) = 10
   \<and> card_elapsed (card_run card_A ([Poll_start, Poll_result job_A] @ [Poll_result job_A_timed])) = Val 30
   \<and> progressPercentage (Val (push_A\<lparr>percentage := Undefined\<rparr>)) job_A = 40
   \<and> progressPercentage (Val (push_A\<lparr>percentage := Null\<rparr>)) job_A = 0
   \<and> elapsedSeconds (Val push_A) job_B = Val 90"
proof -
  note T = absent_field_not_retained
  have polls: "\<forall>x\<in>set [Poll_start, Poll_result job_A]. \<not> is_push x"
    by simp
  have bare: "chain (progress job_A_bare) percentage = Undefined"
    by (simp add: job_A_bare_def)
  have noel: "\<not> truthy_num (chain (progress job_A_timed) elapsed_seconds)"
    by (simp add: job_A_timed_def job_A_bare_def)
  from T [of "[Poll_start, Poll_result job_A]" job_A_bare card_A, THEN conjunct1, rule_format,
      OF conjI [OF polls bare]]
  have 1: "card_percentage
      (card_run card_A ([Poll_start, Poll_result job_A] @ [Poll_result job_A_bare])) = 0"
    by (simp add: card_A_def)
  from T [of "[Poll_start, Poll_result job_A]" job_A_bare card_A_pushed, THEN conjunct1,
      rule_format, OF conjI [OF polls bare]]
  have 2: "card_percentage
      (card_run card_A_pushed ([Poll_start, Poll_result job_A] @ [Poll_result job_A_bare])) = 10"
    by (simp add: card_A_pushed_def push_A_def Math_round_def)
  from T [of "[Poll_start, Poll_result job_A]" job_A_timed card_A, THEN conjunct2, THEN conjunct1,
      rule_format, OF conjI [OF polls noel]]
  have 3: "card_elapsed
      (card_run card_A ([Poll_start, Poll_result job_A] @ [Poll_result job_A_timed])) = Val 30"
    by (simp add: card_A_def job_A_timed_def)
  have u: "chain (Val (push_A\<lparr>percentage := Undefined\<rparr>)) percentage = Undefined"
    and n: "chain (Val (push_A\<lparr>percentage := Null\<rparr>)) percentage = Null"
    by simp_all
  have e: "\<not> truthy_num (chain (Val push_A) elapsed_seconds)"
    by (simp add: push_A_def)
  from T [of _ job_A _ "Val (push_A\<lparr>percentage := Undefined\<rparr>)",
      THEN conjunct2, THEN conjunct2, THEN conjunct1, rule_format, OF u]
  have 4: "progressPercentage (Val (push_A\<lparr>percentage := Undefined\<rparr>)) job_A = 40"
    by (simp add: job_A_def Math_round_def)
  from T [of _ job_A _ "Val (push_A\<lparr>percentage := Null\<rparr>)",
      THEN conjunct2, THEN conjunct2, THEN conjunct2, THEN conjunct1, rule_format, OF n]
  have 5: "progressPercentage (Val (push_A\<lparr>percentage := Null\<rparr>)) job_A = 0" .
  from T [of _ job_B _ "Val push_A",
      THEN conjunct2, THEN conjunct2, THEN conjunct2, THEN conjunct2, rule_format, OF e]
  have 6: "elapsedSeconds (Val push_A) job_B = Val 90"
    by (simp add: job_B_def or_num_def)
  from 1 2 3 4 5 6 show ?thesis by simp
qed

section \<open>Terminal jobs\<close>

text \<open>
  C2 as stated fails.  A poll reports job B completed with \<open>queue_position\<close> 0 and
  its progress object still attached: the tracked record carries both after that
  update, and the card's queue message still reads as currently processing.
\<close>

theorem terminal_record_counterexample:
  "map status (jobs (state_after (refreshJobs env_B_done queue_ABC))) =
     [Processing, Completed, Failed]
   \<and> map queue_position (jobs (state_after (refreshJobs env_B_done queue_ABC))) =
     [Val 1, Val 0, Null]
   \<and> progress (jobs (state_after (refreshJobs env_B_done queue_ABC)) ! 1) = progress job_B
   \<and> progress job_B \<noteq> Null
   \<and> queueMessage (jobs (state_after (refreshJobs env_B_done queue_ABC)) ! 1) =
     Some Currently_processing"
  by (simp add: refreshJobs_def state_after_def env_B_done_def queue_ABC_def job_A_def
      job_B_def job_B_done_def job_C_def queueMessage_def)

lemma push_keeps_props_job:
  "\<forall>x\<in>set t. is_push x \<Longrightarrow> latest_job j t = j"
proof (induction t)
  case Nil
  then show ?case by simp
next
  case (Cons x t)
  then show ?case by (cases x) simp_all
qed

text \<open>
  C2 (amended).  For a job whose polled status is terminal (completed, failed or
  cancelled) the card renders neither the progress bar block (message, percentage,
  elapsed time) nor the step indicators, and push events received afterwards for that
  id neither bring them back nor touch the job record, which only a poll replaces.  The
  record itself is the snapshot as the poll returned it: the client does not clear
  \<open>queue_position\<close> or \<open>progress\<close>.
\<close>

theorem terminal_status_hides_progress:
  assumes "status (props_job c) = Completed \<or> status (props_job c) = Failed
           \<or> status (props_job c) = Cancelled"
    and "\<forall>x\<in>set t. is_push x"
  shows "props_job (card_run c t) = props_job c
       \<and> progressBar formatDuration (progress_value (card_run c t)) (props_job (card_run c t)) = None
       \<and> stepIndicators (progress_value (card_run c t)) (props_job (card_run c t)) = None"
proof -
  have same: "props_job (card_run c t) = props_job c"
    by (simp add: props_job_card_run push_keeps_props_job [OF assms(2)])
  from assms(1) show ?thesis
    by (auto simp: same progressBar_def stepIndicators_def)
qed

theorem terminal_status_hides_progress_witness:
  "status (props_job card_B_done) = Completed
   \<and> props_job (card_run card_B_done [Push push_late]) = props_job card_B_done
   \<and> progressBar (\<lambda>x. ''95s'') (progress_value (card_run card_B_done [Push push_late]))
        (props_job (card_run card_B_done [Push push_late])) = None
   \<and> stepIndicators (progress_value (card_run card_B_done [Push push_late]))
        (props_job (card_run card_B_done [Push push_late])) = None"
proof -
  have st: "status (props_job card_B_done) = Completed"
    by (simp add: card_B_done_def job_B_done_def)
  then have st': "status (props_job card_B_done) = Completed
      \<or> status (props_job card_B_done) = Failed \<or> status (props_job card_B_done) = Cancelled"
    by simp
  have ps: "\<forall>x\<in>set [Push push_late]. is_push x"
    by simp
  from st terminal_status_hides_progress [OF st' ps, of "\<lambda>x. ''95s''"]
  show ?thesis by (rule conjI)
qed

text \<open>
  For contrast: while job B is processing, the same push event is rendered.
\<close>

lemma processing_shows_progress:
  "progressBar (\<lambda>x. ''95s'') (Val push_late) job_B =
     Some \<lparr>bar_message = ''Generating file'', bar_percentage = 99, bar_elapsed = Some ''95s''\<rparr>"
  by (simp add: progressBar_def job_B_def push_late_def currentStepMessage_def
      progressPercentage_def elapsedTime_def elapsedSeconds_def or_num_def Math_round_def)

end
